theory Spec2Isabelle
  imports Main
begin

section \<open>Strings\<close>

text \<open>
  JavaScript strings are modelled as HOL strings restricted to ASCII.  \<open>trim\<close> removes the
  white space and line terminators of ECMAScript that lie in the ASCII range from both ends;
  \<open>toLowerCase\<close> maps the letters A to Z to a to z and leaves every other character alone.
\<close>

definition isWhiteSpace :: "char \<Rightarrow> bool" where
  "isWhiteSpace c = (c \<in> set [CHR '' '', CHR 0x09, CHR 0x0A, CHR 0x0B, CHR 0x0C, CHR 0x0D])"

definition trim :: "string \<Rightarrow> string" where
  "trim s = rev (dropWhile isWhiteSpace (rev (dropWhile isWhiteSpace s)))"

definition lowerChar :: "char \<Rightarrow> char" where
  "lowerChar c =
     (case map_of (zip ''ABCDEFGHIJKLMNOPQRSTUVWXYZ'' ''abcdefghijklmnopqrstuvwxyz'') c of
        Some d \<Rightarrow> d
      | None \<Rightarrow> c)"

definition toLowerCase :: "string \<Rightarrow> string" where
  "toLowerCase s = map lowerChar s"

section \<open>Rows of the five tables\<close>

text \<open>
  The row types follow the \<open>Row\<close> types of the typed client (and the columns of the
  migrations).  Column \<open>id\<close> of each table is renamed per table, since record fields share
  one name space: \<open>card_id\<close>, \<open>room_id\<close>, \<open>profile_id\<close>.  The columns of \<open>game_players\<close>
  and \<open>match_history\<close> are prefixed likewise.  Time stamps and the row ids of
  \<open>game_players\<close> and \<open>match_history\<close> are generated by the store and are never read by the
  operations below; they are left out.
\<close>

type_synonym uuid = string

record flashcard =
  card_id :: int
  question :: string
  answer :: string
  category :: string

record game_room =
  room_id :: uuid
  room_name :: string
  host_id :: uuid
  is_active :: bool
  current_card_id :: "int option"

record game_player =
  player_room_id :: uuid
  player_user_id :: uuid
  score :: int

record match_record =
  match_room_id :: uuid
  match_card_id :: int
  winner_id :: "uuid option"

record profile =
  profile_id :: uuid
  email :: string
  username :: string

record db =
  flashcards :: "flashcard list"
  game_rooms :: "game_room list"
  game_players :: "game_player list"
  match_history :: "match_record list"
  users :: "profile list"

section \<open>The record store\<close>

text \<open>
  Every call of the client returns either rows or an error object with a machine-readable
  \<open>code\<close> and a \<open>message\<close>; the client does not throw.  What the store decides from its
  own schema is computed here: the primary keys, \<open>UNIQUE(room_id, user_id)\<close> on
  \<open>game_players\<close>, the unique columns of \<open>users\<close>, and the column defaults (\<open>score\<close> 0,
  \<open>is_active\<close> true, \<open>current_card_id\<close> null).  Every other way a call can fail (transport,
  session, policies, foreign keys) is an argument \<open>fault\<close> of the call: \<open>Some e\<close> makes the
  call return \<open>e\<close> and leaves the tables as they are.
\<close>

record pg_error =
  code :: string
  message :: string

definition unique_violation :: pg_error where
  "unique_violation =
     \<lparr>code = ''23505'', message = ''duplicate key value violates unique constraint''\<rparr>"

text \<open>\<open>.single()\<close>: the row when the query yields exactly one, no data otherwise.\<close>

definition single :: "'a list \<Rightarrow> 'a option" where
  "single xs = (case xs of [x] \<Rightarrow> Some x | _ \<Rightarrow> None)"

definition select_single :: "pg_error option \<Rightarrow> 'a list \<Rightarrow> 'a option" where
  "select_single fault rows = (case fault of Some e \<Rightarrow> None | None \<Rightarrow> single rows)"

text \<open>
  The queries of the components, by the function that is the store's answer to each:
  \<^item> \<open>room_rows\<close>, \<open>card_rows\<close>: \<open>from('game_rooms')\<close> and \<open>from('flashcards')\<close> with
    \<open>.eq('id', ...)\<close>;
  \<^item> \<open>update_score\<close>: \<open>from('game_players').update({ score }).eq('room_id', ...).eq('user_id', ...)\<close>;
  \<^item> \<open>insert_match\<close>: \<open>from('match_history').insert([{ room_id, card_id, winner_id }])\<close>;
  \<^item> \<open>insert_player\<close>: \<open>from('game_players').insert([{ room_id, user_id }])\<close>;
  \<^item> \<open>delete_player\<close>: \<open>from('game_players').delete().eq('room_id', ...).eq('user_id', ...)\<close>;
  \<^item> \<open>update_current_card\<close>: \<open>from('game_rooms').update({ current_card_id }).eq('id', ...)\<close>;
  \<^item> \<open>insert_room\<close>: \<open>from('game_rooms').insert([{ name, host_id }]).select()\<close>;
  \<^item> \<open>insert_profile\<close>: \<open>from('users').insert([{ id, email, username }])\<close>.
\<close>

definition room_rows :: "db \<Rightarrow> uuid \<Rightarrow> game_room list" where
  "room_rows d rid = filter (\<lambda>r. room_id r = rid) (game_rooms d)"

definition card_rows :: "db \<Rightarrow> int \<Rightarrow> flashcard list" where
  "card_rows d cid = filter (\<lambda>c. card_id c = cid) (flashcards d)"

definition is_member :: "uuid \<Rightarrow> uuid \<Rightarrow> game_player \<Rightarrow> bool" where
  "is_member rid uid p = (player_room_id p = rid \<and> player_user_id p = uid)"

definition member_rows :: "db \<Rightarrow> uuid \<Rightarrow> uuid \<Rightarrow> game_player list" where
  "member_rows d rid uid = filter (is_member rid uid) (game_players d)"

definition update_score :: "pg_error option \<Rightarrow> uuid \<Rightarrow> uuid \<Rightarrow> int \<Rightarrow> db \<Rightarrow> pg_error option \<times> db" where
  "update_score fault rid uid n d =
     (case fault of
        Some e \<Rightarrow> (Some e, d)
      | None \<Rightarrow>
          (None, d\<lparr>game_players :=
                     map (\<lambda>p. if is_member rid uid p then p\<lparr>score := n\<rparr> else p) (game_players d)\<rparr>))"

definition insert_match :: "pg_error option \<Rightarrow> uuid \<Rightarrow> int \<Rightarrow> uuid \<Rightarrow> db \<Rightarrow> pg_error option \<times> db" where
  "insert_match fault rid cid uid d =
     (case fault of
        Some e \<Rightarrow> (Some e, d)
      | None \<Rightarrow>
          (None, d\<lparr>match_history :=
                     match_history d @
                       [\<lparr>match_room_id = rid, match_card_id = cid, winner_id = Some uid\<rparr>]\<rparr>))"

definition insert_player :: "pg_error option \<Rightarrow> uuid \<Rightarrow> uuid \<Rightarrow> db \<Rightarrow> pg_error option \<times> db" where
  "insert_player fault rid uid d =
     (case fault of
        Some e \<Rightarrow> (Some e, d)
      | None \<Rightarrow>
          if member_rows d rid uid \<noteq> [] then (Some unique_violation, d)
          else (None, d\<lparr>game_players :=
                          game_players d @
                            [\<lparr>player_room_id = rid, player_user_id = uid, score = 0\<rparr>]\<rparr>))"

definition delete_player :: "pg_error option \<Rightarrow> uuid \<Rightarrow> uuid \<Rightarrow> db \<Rightarrow> pg_error option \<times> db" where
  "delete_player fault rid uid d =
     (case fault of
        Some e \<Rightarrow> (Some e, d)
      | None \<Rightarrow>
          (None, d\<lparr>game_players := filter (\<lambda>p. \<not> is_member rid uid p) (game_players d)\<rparr>))"

definition update_current_card :: "pg_error option \<Rightarrow> uuid \<Rightarrow> int \<Rightarrow> db \<Rightarrow> pg_error option \<times> db" where
  "update_current_card fault rid cid d =
     (case fault of
        Some e \<Rightarrow> (Some e, d)
      | None \<Rightarrow>
          (None, d\<lparr>game_rooms :=
                     map (\<lambda>r. if room_id r = rid then r\<lparr>current_card_id := Some cid\<rparr> else r)
                       (game_rooms d)\<rparr>))"

text \<open>
  Inserting a room: the store generates the id (\<open>gen_random_uuid()\<close>), here the argument
  \<open>new_id\<close>, and returns the inserted row.
\<close>

definition insert_room :: "pg_error option \<Rightarrow> uuid \<Rightarrow> string \<Rightarrow> uuid \<Rightarrow> db \<Rightarrow> (pg_error + game_room) \<times> db" where
  "insert_room fault new_id nm host d =
     (case fault of
        Some e \<Rightarrow> (Inl e, d)
      | None \<Rightarrow>
          if room_rows d new_id \<noteq> [] then (Inl unique_violation, d)
          else
            (let r = \<lparr>room_id = new_id, room_name = nm, host_id = host, is_active = True,
                       current_card_id = None\<rparr>
             in (Inr r, d\<lparr>game_rooms := game_rooms d @ [r]\<rparr>)))"

definition insert_profile :: "pg_error option \<Rightarrow> profile \<Rightarrow> db \<Rightarrow> pg_error option \<times> db" where
  "insert_profile fault u d =
     (case fault of
        Some e \<Rightarrow> (Some e, d)
      | None \<Rightarrow>
          if \<exists>v \<in> set (users d).
               profile_id v = profile_id u \<or> email v = email u \<or> username v = username u
          then (Some unique_violation, d)
          else (None, d\<lparr>users := users d @ [u]\<rparr>))"

section \<open>The room session (component GameRoom)\<close>

datatype feedback_type = success | error

record feedback_msg =
  fb_message :: string
  fb_type :: feedback_type

text \<open>
  The component's state.  \<open>players\<close> is the locally cached leaderboard; \<open>timers\<close> lists the
  pending two-second timers, each with the value of \<open>isHost\<close> its callback closed over.
\<close>

record session =
  players :: "game_player list"
  currentCard :: "flashcard option"
  userAnswer :: string
  loading :: bool
  feedback :: "feedback_msg option"
  isHost :: bool
  timers :: "bool list"

definition initial_session :: session where
  "initial_session =
     \<lparr>players = [], currentCard = None, userAnswer = [], loading = False, feedback = None,
      isHost = False, timers = []\<rparr>"

text \<open>Rows of the room, highest score first (the order among equal scores is the store's).\<close>

definition fetchPlayers :: "uuid \<Rightarrow> pg_error option \<Rightarrow> session \<Rightarrow> db \<Rightarrow> session" where
  "fetchPlayers rid fault st d =
     (case fault of
        Some e \<Rightarrow> st
      | None \<Rightarrow>
          st\<lparr>players :=
               sort_key (\<lambda>p. - score p) (filter (\<lambda>p. player_room_id p = rid) (game_players d))\<rparr>)"

text \<open>A card id is tested for truthiness: null and 0 both skip the fetch.\<close>

definition fetchCurrentCard :: "uuid \<Rightarrow> pg_error option \<Rightarrow> pg_error option \<Rightarrow> session \<Rightarrow> db \<Rightarrow> session" where
  "fetchCurrentCard rid f_room f_card st d =
     (case select_single f_room (room_rows d rid) of
        None \<Rightarrow> st
      | Some roomData \<Rightarrow>
          (case current_card_id roomData of
             None \<Rightarrow> st
           | Some cid \<Rightarrow>
               if cid = 0 then st
               else
                 (case select_single f_card (card_rows d cid) of
                    None \<Rightarrow> st
                  | Some cardData \<Rightarrow> st\<lparr>currentCard := Some cardData\<rparr>)))"

definition checkIfHost :: "uuid \<Rightarrow> uuid \<Rightarrow> pg_error option \<Rightarrow> session \<Rightarrow> db \<Rightarrow> session" where
  "checkIfHost rid uid fault st d =
     st\<lparr>isHost :=
          (case select_single fault (room_rows d rid) of
             None \<Rightarrow> False
           | Some data \<Rightarrow> host_id data = uid)\<rparr>"

text \<open>
  \<open>startNewRound\<close>.  \<open>cards\<close> is the store's answer to the query for one card in random
  order: \<open>None\<close> when the query returns no data, otherwise the rows returned.
\<close>

definition roundBody :: "uuid \<Rightarrow> flashcard list option \<Rightarrow> pg_error option \<Rightarrow> session \<Rightarrow> db \<Rightarrow> session \<times> db" where
  "roundBody rid cards f_upd st d =
     (st\<lparr>loading := False, userAnswer := [], feedback := None\<rparr>,
      (case cards of
         Some (c # cs) \<Rightarrow> snd (update_current_card f_upd rid (card_id c) d)
       | _ \<Rightarrow> d))"

definition startNewRound :: "uuid \<Rightarrow> flashcard list option \<Rightarrow> pg_error option \<Rightarrow> session \<Rightarrow> db \<Rightarrow> session \<times> db" where
  "startNewRound rid cards f_upd st d =
     (if \<not> isHost st then (st, d) else roundBody rid cards f_upd st d)"

definition isCorrect :: "string \<Rightarrow> flashcard \<Rightarrow> bool" where
  "isCorrect ua fc = (trim (toLowerCase ua) = trim (toLowerCase (answer fc)))"

text \<open>\<open>(currentPlayer?.score || 0) + 1\<close> over the cached leaderboard.\<close>

definition cachedScore :: "game_player list \<Rightarrow> uuid \<Rightarrow> int" where
  "cachedScore ps uid =
     (case find (\<lambda>p. player_user_id p = uid) ps of
        None \<Rightarrow> 0
      | Some p \<Rightarrow> if score p = 0 then 0 else score p)"

definition newScore :: "game_player list \<Rightarrow> uuid \<Rightarrow> int" where
  "newScore ps uid = cachedScore ps uid + 1"

definition correct_feedback :: feedback_msg where
  "correct_feedback = \<lparr>fb_message = ''Correct! You earned a point!'', fb_type = success\<rparr>"

definition update_failed_feedback :: feedback_msg where
  "update_failed_feedback =
     \<lparr>fb_message = ''Error updating score. Please try again.'', fb_type = error\<rparr>"

definition wrong_feedback :: "flashcard \<Rightarrow> feedback_msg" where
  "wrong_feedback fc =
     \<lparr>fb_message = ''Wrong! The correct answer was: '' @ answer fc, fb_type = error\<rparr>"

definition submitAnswer :: "uuid \<Rightarrow> uuid \<Rightarrow> pg_error option \<Rightarrow> pg_error option \<Rightarrow> session \<Rightarrow> db \<Rightarrow> session \<times> db" where
  "submitAnswer rid uid f_upd f_ins st d =
     (case currentCard st of
        None \<Rightarrow> (st, d)
      | Some fc \<Rightarrow>
          if trim (userAnswer st) = [] then (st, d)
          else if isCorrect (userAnswer st) fc then
            (case update_score f_upd rid uid (newScore (players st) uid) d of
               (None, d1) \<Rightarrow>
                 (st\<lparr>feedback := Some correct_feedback, timers := timers st @ [isHost st],
                     loading := False, userAnswer := []\<rparr>,
                  snd (insert_match f_ins rid (card_id fc) uid d1))
             | (Some e, d1) \<Rightarrow>
                 (st\<lparr>feedback := Some update_failed_feedback, loading := False,
                     userAnswer := []\<rparr>, d))
          else
            (st\<lparr>feedback := Some (wrong_feedback fc), loading := False, userAnswer := []\<rparr>, d))"

text \<open>The oldest pending timer fires: its callback starts a round when it closed over a host.\<close>

definition timerFires :: "uuid \<Rightarrow> flashcard list option \<Rightarrow> pg_error option \<Rightarrow> session \<Rightarrow> db \<Rightarrow> session \<times> db" where
  "timerFires rid cards f_upd st d =
     (case timers st of
        [] \<Rightarrow> (st, d)
      | h # ts \<Rightarrow>
          if h then roundBody rid cards f_upd (st\<lparr>timers := ts\<rparr>) d
          else (st\<lparr>timers := ts\<rparr>, d))"

section \<open>The lobby (component GameLobby)\<close>

text \<open>
  The repository holds two copies of the lobby component.  The functions of the copy under
  \<open>components/\<close> keep their names; those of the earlier copy, kept beside the page and
  the room component, carry the suffix \<open>_prev\<close>.  What the user is shown (toasts in the one,
  alert boxes in the other) is collected in \<open>notices\<close>; console output is not modelled.
\<close>

datatype toast_variant = plain | destructive

datatype notice = Toast string string toast_variant | Alert string

record lobby =
  rooms :: "(game_room \<times> nat) list"
  newRoomName :: string
  activeRoom :: "uuid option"
  lobby_loading :: bool
  notices :: "notice list"

definition initial_lobby :: lobby where
  "initial_lobby =
     \<lparr>rooms = [], newRoomName = [], activeRoom = None, lobby_loading = False, notices = []\<rparr>"

text \<open>What \<open>supabase.auth.getUser()\<close> yields for a signed-in caller.\<close>

record auth_user =
  auth_id :: uuid
  auth_email :: "string option"
  auth_username :: "string option"

text \<open>The rows of \<open>game_players\<close> embedded in a room row; \<open>player_count\<close> is their number.\<close>

definition embedded_players :: "db \<Rightarrow> game_room \<Rightarrow> game_player list" where
  "embedded_players d r = filter (\<lambda>p. player_room_id p = room_id r) (game_players d)"

definition with_count :: "db \<Rightarrow> game_room \<Rightarrow> game_room \<times> nat" where
  "with_count d r = (r, length (embedded_players d r))"

definition fetchRooms :: "pg_error option \<Rightarrow> lobby \<Rightarrow> db \<Rightarrow> lobby" where
  "fetchRooms fault lb d =
     (case fault of
        Some e \<Rightarrow>
          lb\<lparr>notices := notices lb @ [Toast ''Error'' ''Could not fetch game rooms.'' destructive]\<rparr>
      | None \<Rightarrow> lb\<lparr>rooms := map (with_count d) (filter is_active (game_rooms d))\<rparr>)"

text \<open>The earlier copy embeds \<open>game_players!inner\<close>: a room without player rows is no row of the answer.\<close>

definition fetchRooms_prev :: "pg_error option \<Rightarrow> lobby \<Rightarrow> db \<Rightarrow> lobby" where
  "fetchRooms_prev fault lb d =
     (case fault of
        Some e \<Rightarrow> lb
      | None \<Rightarrow>
          lb\<lparr>rooms :=
               map (with_count d)
                 (filter (\<lambda>r. is_active r \<and> embedded_players d r \<noteq> []) (game_rooms d))\<rparr>)"

definition createRoom :: "auth_user option \<Rightarrow> uuid \<Rightarrow> pg_error option \<Rightarrow> pg_error option \<Rightarrow> lobby \<Rightarrow> db \<Rightarrow> lobby \<times> db" where
  "createRoom auth new_id f_room f_join lb d =
     (if trim (newRoomName lb) = [] then (lb, d)
      else
        (case auth of
           None \<Rightarrow>
             (lb\<lparr>notices := notices lb @
                    [Toast ''Authentication Error'' ''You must be logged in to create a room.''
                       destructive],
                 lobby_loading := False\<rparr>, d)
         | Some u \<Rightarrow>
             (case insert_room f_room new_id (newRoomName lb) (auth_id u) d of
                (Inl e, d1) \<Rightarrow>
                  (lb\<lparr>notices := notices lb @
                         [Toast ''Error'' (''Failed to create room: '' @ message e) destructive],
                      lobby_loading := False\<rparr>, d)
              | (Inr data, d1) \<Rightarrow>
                  (case insert_player f_join (room_id data) (auth_id u) d1 of
                     (Some joinError, d2) \<Rightarrow>
                       (lb\<lparr>notices := notices lb @
                              [Toast ''Error''
                                 (''Created room but failed to join: '' @ message joinError)
                                 destructive],
                           lobby_loading := False\<rparr>, d1)
                   | (None, d2) \<Rightarrow>
                       (lb\<lparr>notices := notices lb @
                              [Toast ''Success!''
                                 (''Room '' @ [CHR 0x22] @ newRoomName lb @ [CHR 0x22] @
                                    '' created and joined.'') plain],
                           activeRoom := Some (room_id data), newRoomName := [],
                           lobby_loading := False\<rparr>, d2)))))"

text \<open>
  The earlier copy first makes sure the caller has a row in \<open>users\<close>:
  \<open>user_metadata?.username || email?.split('@')[0] || 'Player'\<close>.
\<close>

definition fallback_username :: "auth_user \<Rightarrow> string" where
  "fallback_username u =
     (case auth_username u of
        Some n \<Rightarrow>
          if n \<noteq> [] then n
          else
            (case auth_email u of
               Some e \<Rightarrow>
                 if takeWhile (\<lambda>c. c \<noteq> CHR ''@'') e \<noteq> [] then takeWhile (\<lambda>c. c \<noteq> CHR ''@'') e
                 else ''Player''
             | None \<Rightarrow> ''Player'')
      | None \<Rightarrow>
          (case auth_email u of
             Some e \<Rightarrow>
               if takeWhile (\<lambda>c. c \<noteq> CHR ''@'') e \<noteq> [] then takeWhile (\<lambda>c. c \<noteq> CHR ''@'') e
               else ''Player''
           | None \<Rightarrow> ''Player''))"

definition ensure_profile :: "pg_error option \<Rightarrow> pg_error option \<Rightarrow> auth_user \<Rightarrow> db \<Rightarrow> db" where
  "ensure_profile f_sel f_prof u d =
     (case select_single f_sel (filter (\<lambda>v. profile_id v = auth_id u) (users d)) of
        Some existingUser \<Rightarrow> d
      | None \<Rightarrow>
          snd (insert_profile f_prof
                 \<lparr>profile_id = auth_id u,
                  email = (case auth_email u of Some e \<Rightarrow> e | None \<Rightarrow> []),
                  username = fallback_username u\<rparr> d))"

definition createRoom_prev :: "auth_user option \<Rightarrow> pg_error option \<Rightarrow> pg_error option \<Rightarrow> uuid \<Rightarrow> pg_error option \<Rightarrow> pg_error option \<Rightarrow> lobby \<Rightarrow> db \<Rightarrow> lobby \<times> db" where
  "createRoom_prev auth f_sel f_prof new_id f_room f_join lb d =
     (if trim (newRoomName lb) = [] then (lb, d)
      else
        (case auth of
           None \<Rightarrow>
             (lb\<lparr>notices := notices lb @ [Alert ''Please sign in again.''],
                 lobby_loading := False\<rparr>, d)
         | Some u \<Rightarrow>
             (let d0 = ensure_profile f_sel f_prof u d in
              case insert_room f_room new_id (newRoomName lb) (auth_id u) d0 of
                (Inl e, d1) \<Rightarrow>
                  (lb\<lparr>notices := notices lb @ [Alert (''Failed to create room: '' @ message e)],
                      lobby_loading := False\<rparr>, d0)
              | (Inr data, d1) \<Rightarrow>
                  (case insert_player f_join (room_id data) (auth_id u) d1 of
                     (Some joinError, d2) \<Rightarrow>
                       (lb\<lparr>notices := notices lb @
                              [Alert (''Created room but failed to join: '' @ message joinError)],
                           activeRoom := Some (room_id data), newRoomName := [],
                           lobby_loading := False\<rparr>, d1)
                   | (None, d2) \<Rightarrow>
                       (lb\<lparr>activeRoom := Some (room_id data), newRoomName := [],
                           lobby_loading := False\<rparr>, d2)))))"

definition joinRoom :: "uuid \<Rightarrow> auth_user option \<Rightarrow> pg_error option \<Rightarrow> lobby \<Rightarrow> db \<Rightarrow> lobby \<times> db" where
  "joinRoom rid auth fault lb d =
     (case auth of
        None \<Rightarrow>
          (lb\<lparr>notices := notices lb @
                 [Toast ''Authentication Error'' ''Please sign in again to join a room.''
                    destructive]\<rparr>, d)
      | Some u \<Rightarrow>
          (case insert_player fault rid (auth_id u) d of
             (Some e, d1) \<Rightarrow>
               if code e = ''23505'' then (lb\<lparr>activeRoom := Some rid\<rparr>, d)
               else
                 (lb\<lparr>notices := notices lb @
                        [Toast ''Error'' (''Failed to join room: '' @ message e) destructive]\<rparr>, d)
           | (None, d1) \<Rightarrow> (lb\<lparr>activeRoom := Some rid\<rparr>, d1)))"

definition joinRoom_prev :: "uuid \<Rightarrow> auth_user option \<Rightarrow> pg_error option \<Rightarrow> lobby \<Rightarrow> db \<Rightarrow> lobby \<times> db" where
  "joinRoom_prev rid auth fault lb d =
     (case auth of
        None \<Rightarrow> (lb\<lparr>notices := notices lb @ [Alert ''Please sign in again.'']\<rparr>, d)
      | Some u \<Rightarrow>
          (case insert_player fault rid (auth_id u) d of
             (Some e, d1) \<Rightarrow>
               if code e = ''23505'' then (lb\<lparr>activeRoom := Some rid\<rparr>, d)
               else
                 (lb\<lparr>notices := notices lb @ [Alert (''Failed to join room: '' @ message e)]\<rparr>, d)
           | (None, d1) \<Rightarrow> (lb\<lparr>activeRoom := Some rid\<rparr>, d1)))"

text \<open>Leaving deletes the caller's own row and hands control back to the lobby (\<open>onLeave\<close>).\<close>

definition leaveRoom :: "uuid \<Rightarrow> uuid \<Rightarrow> pg_error option \<Rightarrow> lobby \<Rightarrow> db \<Rightarrow> lobby \<times> db" where
  "leaveRoom rid uid fault lb d =
     (lb\<lparr>activeRoom := None\<rparr>, snd (delete_player fault rid uid d))"

section \<open>Reachable sessions\<close>



text \<open>
  One operation of the application, issued by any client in any room, seen from the store.
\<close>

inductive store_step :: "db \<Rightarrow> db \<Rightarrow> bool" where
  by_join: "store_step d (snd (joinRoom rid auth fault lb d))"
| by_join_prev: "store_step d (snd (joinRoom_prev rid auth fault lb d))"
| by_create: "store_step d (snd (createRoom auth new_id f_room f_join lb d))"
| by_create_prev:
    "store_step d (snd (createRoom_prev auth f_sel f_prof new_id f_room f_join lb d))"
| by_leave: "store_step d (snd (leaveRoom rid uid fault lb d))"
| by_submit: "store_step d (snd (submitAnswer rid uid f_upd f_ins st d))"
| by_round: "store_step d (snd (startNewRound rid cards f_upd st d))"
| by_timer: "store_step d (snd (timerFires rid cards f_upd st d))"

text \<open>
  The states the mounted component of account \<open>uid\<close> can be in, together with the room id
  it was handed and the store.  The component is mounted with its initial state over any
  store; it then runs its own functions and takes key strokes, while the store moves by
  operations of the application.  The lobby renders the component without a key and sets
  the active room from calls that may overlap, so the mounted component can be handed
  another room id: its effect runs again (the three fetches follow as steps of their own)
  and its state is kept.
\<close>

inductive reachable :: "uuid \<Rightarrow> uuid \<Rightarrow> session \<Rightarrow> db \<Rightarrow> bool" where
  enter: "reachable rid uid initial_session d"
| switched: "reachable rid uid st d \<Longrightarrow> reachable rid' uid st d"
| players_fetched:
    "reachable rid uid st d \<Longrightarrow> reachable rid uid (fetchPlayers rid fault st d) d"
| card_fetched:
    "reachable rid uid st d \<Longrightarrow> reachable rid uid (fetchCurrentCard rid f_room f_card st d) d"
| host_checked:
    "reachable rid uid st d \<Longrightarrow> reachable rid uid (checkIfHost rid uid fault st d) d"
| typed: "reachable rid uid st d \<Longrightarrow> reachable rid uid (st\<lparr>userAnswer := txt\<rparr>) d"
| round_started:
    "reachable rid uid st d \<Longrightarrow>
     reachable rid uid (fst (startNewRound rid cards f_upd st d))
       (snd (startNewRound rid cards f_upd st d))"
| submitted:
    "reachable rid uid st d \<Longrightarrow>
     reachable rid uid (fst (submitAnswer rid uid f_upd f_ins st d))
       (snd (submitAnswer rid uid f_upd f_ins st d))"
| timer_fired:
    "reachable rid uid st d \<Longrightarrow>
     reachable rid uid (fst (timerFires rid cards f_upd st d))
       (snd (timerFires rid cards f_upd st d))"
| elsewhere: "reachable rid uid st d \<Longrightarrow> store_step d d' \<Longrightarrow> reachable rid uid st d'"


section \<open>Scores of membership rows\<close>

text \<open>
  A membership row is identified by its key \<open>(room_id, user_id)\<close>, which the store keeps
  unique.  \<open>scores_kept d d'\<close>: every row of \<open>d\<close> that is still a row of \<open>d'\<close> has at least the
  score it had.
\<close>

definition member_key :: "game_player \<Rightarrow> uuid \<times> uuid" where
  "member_key p = (player_room_id p, player_user_id p)"

definition unique_members :: "db \<Rightarrow> bool" where
  "unique_members d = distinct (map member_key (game_players d))"

definition scores_kept :: "db \<Rightarrow> db \<Rightarrow> bool" where
  "scores_kept d d' =
     (\<forall>p \<in> set (game_players d). \<forall>q \<in> set (game_players d').
        member_key q = member_key p \<longrightarrow> score p \<le> score q)"

section \<open>Sample data\<close>

text \<open>
  The first seeded flashcard, a room hosted by \<open>u1\<close> that shows it, and a player \<open>u2\<close> with five
  points; a card whose stored answer is empty; the same store without player rows; the
  account \<open>u2\<close> as the identity provider reports it; the error of a request that did not
  reach the store.
\<close>

definition paris_card :: flashcard where
  "paris_card =
     \<lparr>card_id = 1, question = ''What is the capital of France?'', answer = ''Paris'',
      category = ''Geography''\<rparr>"

definition blank_card :: flashcard where
  "blank_card =
     \<lparr>card_id = 2, question = ''What do you say to stay silent?'', answer = [],
      category = ''Riddles''\<rparr>"

definition quiz_room :: game_room where
  "quiz_room =
     \<lparr>room_id = ''r1'', room_name = ''Quiz1'', host_id = ''u1'', is_active = True,
      current_card_id = Some 1\<rparr>"

definition sample_db :: db where
  "sample_db =
     \<lparr>flashcards = [paris_card],
      game_rooms = [quiz_room],
      game_players = [\<lparr>player_room_id = ''r1'', player_user_id = ''u2'', score = 5\<rparr>],
      match_history = [],
      users = []\<rparr>"

definition empty_room_db :: db where
  "empty_room_db = sample_db\<lparr>game_players := []\<rparr>"

definition sample_user :: auth_user where
  "sample_user =
     \<lparr>auth_id = ''u2'', auth_email = Some ''bea@example.org'', auth_username = None\<rparr>"

definition fetch_failed :: pg_error where
  "fetch_failed = \<lparr>code = [], message = ''TypeError: Failed to fetch''\<rparr>"

text \<open>
  The store after \<open>u2\<close> created a second room, \<open>Quiz2\<close>, and the insert of the host's own
  player row failed.
\<close>

definition orphan_db :: db where
  "orphan_db =
     snd (createRoom (Some sample_user) ''r2'' None (Some fetch_failed)
            (initial_lobby\<lparr>newRoomName := ''Quiz2''\<rparr>) sample_db)"

text \<open>The session of \<open>u2\<close> in that room, leaderboard and card loaded, an answer typed.\<close>

definition sample_session :: session where
  "sample_session =
     \<lparr>players = [\<lparr>player_room_id = ''r1'', player_user_id = ''u2'', score = 5\<rparr>],
      currentCard = Some paris_card, userAnswer = '' Paris '', loading = False,
      feedback = None, isHost = False, timers = []\<rparr>"

text \<open>
  The same room showing the card with the empty answer, and the session of \<open>u2\<close> there after
  both queries succeeded, with two spaces typed.
\<close>

definition blank_db :: db where
  "blank_db =
     sample_db\<lparr>flashcards := [paris_card, blank_card],
               game_rooms := [quiz_room\<lparr>current_card_id := Some 2\<rparr>]\<rparr>"

definition blank_session :: session where
  "blank_session =
     (fetchCurrentCard ''r1'' None None
        (fetchPlayers ''r1'' None initial_session blank_db) blank_db)
     \<lparr>userAnswer := ''  ''\<rparr>"

text \<open>
  The session of \<open>u2\<close> after the leaderboard query failed and the card query succeeded, with
  an answer typed: the cached leaderboard is still empty.
\<close>

definition stale_session :: session where
  "stale_session =
     (fetchCurrentCard ''r1'' None None
        (fetchPlayers ''r1'' (Some fetch_failed) initial_session sample_db) sample_db)
     \<lparr>userAnswer := ''paris''\<rparr>"




section \<open>Answer submission\<close>

lemma cachedScore_default:
  "cachedScore ps uid =
     (case find (\<lambda>p. player_user_id p = uid) ps of None \<Rightarrow> 0 | Some p \<Rightarrow> score p)"
  by (simp add: cachedScore_def split: option.splits)

lemma sample_answer_correct:
  "trim (userAnswer sample_session) \<noteq> [] \<and>
   trim (toLowerCase (userAnswer sample_session)) = trim (toLowerCase (answer paris_card))"
  by (simp add: sample_session_def paris_card_def trim_def toLowerCase_def lowerChar_def
      isWhiteSpace_def)

lemma sample_session_eq:
  "sample_session =
     (fetchCurrentCard ''r1'' None None
        (fetchPlayers ''r1'' None initial_session sample_db) sample_db)
     \<lparr>userAnswer := '' Paris ''\<rparr>"
  by (simp add: sample_session_def fetchCurrentCard_def fetchPlayers_def select_single_def
      room_rows_def card_rows_def single_def sample_db_def quiz_room_def paris_card_def
      initial_session_def)

lemma sample_session_reachable: "reachable ''r1'' ''u2'' sample_session sample_db"
  unfolding sample_session_eq
  by (intro reachable.typed reachable.card_fetched reachable.players_fetched reachable.enter)

lemma blank_session_eq:
  "blank_session =
     \<lparr>players = [\<lparr>player_room_id = ''r1'', player_user_id = ''u2'', score = 5\<rparr>],
      currentCard = Some blank_card, userAnswer = ''  '', loading = False,
      feedback = None, isHost = False, timers = []\<rparr>"
  by (simp add: blank_session_def blank_db_def fetchCurrentCard_def fetchPlayers_def
      select_single_def room_rows_def card_rows_def single_def sample_db_def quiz_room_def
      paris_card_def blank_card_def initial_session_def)

lemma feedback_distinct:
  "wrong_feedback fc \<noteq> correct_feedback" "wrong_feedback fc \<noteq> update_failed_feedback"
  by (simp_all add: wrong_feedback_def correct_feedback_def update_failed_feedback_def)

lemma submitAnswer_update_refused:
  "snd (submitAnswer rid uid (Some e) f_ins st d) = d \<and>
   timers (fst (submitAnswer rid uid (Some e) f_ins st d)) = timers st"
  by (simp add: submitAnswer_def update_score_def split: option.splits)

text \<open>
  C1, as amended.  For a correct submission (a card is current, the text is not blank after
  trimming, the normalised strings are equal) whose score update the store accepts: the rows
  of \<open>game_players\<close> keyed by the room and the submitter get the cached score plus 1, where
  the cached score is that of the submitter's row in the local leaderboard and 0 when there
  is none, and all other rows stay as they are; one match record for the room and the card,
  with the submitter as winner, is appended to \<open>match_history\<close> when the store accepts the
  insert, and none when it refuses it.  When the store answers the score update with an
  error, the store is left as it was.
\<close>

theorem C1_correct_submission:
  assumes "currentCard st = Some fc"
    and "trim (userAnswer st) \<noteq> []"
    and "trim (toLowerCase (userAnswer st)) = trim (toLowerCase (answer fc))"
  shows "game_players (snd (submitAnswer rid uid None f_ins st d)) =
           map (\<lambda>p. if player_room_id p = rid \<and> player_user_id p = uid
                     then p\<lparr>score := (case find (\<lambda>q. player_user_id q = uid) (players st) of
                                         None \<Rightarrow> 0 | Some q \<Rightarrow> score q) + 1\<rparr>
                     else p) (game_players d) \<and>
         match_history (snd (submitAnswer rid uid None f_ins st d)) =
           (case f_ins of
              None \<Rightarrow>
                match_history d @
                  [\<lparr>match_room_id = rid, match_card_id = card_id fc, winner_id = Some uid\<rparr>]
            | Some e \<Rightarrow> match_history d) \<and>
         snd (submitAnswer rid uid (Some e') f_ins st d) = d"
proof -
  from assms have "isCorrect (userAnswer st) fc"
    by (simp add: isCorrect_def)
  with assms(1,2) have accepted:
    "snd (submitAnswer rid uid None f_ins st d) =
       snd (insert_match f_ins rid (card_id fc) uid
              (snd (update_score None rid uid (newScore (players st) uid) d)))"
    by (simp add: submitAnswer_def update_score_def)
  show ?thesis
    unfolding accepted
    by (simp add: update_score_def insert_match_def newScore_def cachedScore_default
        is_member_def submitAnswer_update_refused split: option.splits)
qed

theorem C1_correct_submission_witness:
  "game_players (snd (submitAnswer ''r1'' ''u2'' None None sample_session sample_db)) =
     [\<lparr>player_room_id = ''r1'', player_user_id = ''u2'', score = 6\<rparr>] \<and>
   match_history (snd (submitAnswer ''r1'' ''u2'' None None sample_session sample_db)) =
     [\<lparr>match_room_id = ''r1'', match_card_id = 1, winner_id = Some ''u2''\<rparr>]"
  using C1_correct_submission [of sample_session paris_card "''r1''" "''u2''" None sample_db]
    sample_answer_correct
  by (simp add: sample_session_def sample_db_def paris_card_def)

text \<open>
  C1 as stated fails when the store refuses one of the two writes.  With an error on the
  score update the correct submission leaves the store as it was, with no match record and
  the old score; with an error on the insert the score is raised and the success feedback is
  shown, and still no match record exists.
\<close>

theorem C1_refused_write_counterexample:
  "reachable ''r1'' ''u2'' sample_session sample_db \<and>
   currentCard sample_session = Some paris_card \<and>
   trim (userAnswer sample_session) \<noteq> [] \<and>
   trim (toLowerCase (userAnswer sample_session)) = trim (toLowerCase (answer paris_card)) \<and>
   match_history sample_db = [] \<and>
   game_players sample_db = [\<lparr>player_room_id = ''r1'', player_user_id = ''u2'', score = 5\<rparr>] \<and>
   snd (submitAnswer ''r1'' ''u2'' (Some fetch_failed) None sample_session sample_db) =
     sample_db \<and>
   match_history
     (snd (submitAnswer ''r1'' ''u2'' None (Some fetch_failed) sample_session sample_db)) = [] \<and>
   feedback (fst (submitAnswer ''r1'' ''u2'' None (Some fetch_failed) sample_session sample_db)) =
     Some correct_feedback"
proof -
  have shown: "currentCard sample_session = Some paris_card"
    by (simp add: sample_session_def)
  have right: "isCorrect (userAnswer sample_session) paris_card"
    using sample_answer_correct by (simp add: isCorrect_def)
  from shown right sample_answer_correct
  have refused: "snd (submitAnswer ''r1'' ''u2'' (Some fetch_failed) None sample_session
                        sample_db) = sample_db"
    by (simp add: submitAnswer_def update_score_def)
  from shown right sample_answer_correct
  have lost: "match_history
                (snd (submitAnswer ''r1'' ''u2'' None (Some fetch_failed) sample_session
                        sample_db)) = [] \<and>
              feedback (fst (submitAnswer ''r1'' ''u2'' None (Some fetch_failed) sample_session
                               sample_db)) = Some correct_feedback"
    by (simp add: submitAnswer_def update_score_def insert_match_def sample_db_def)
  from shown sample_answer_correct sample_session_reachable refused lost show ?thesis
    by (simp add: sample_db_def)
qed

text \<open>
  C2, as amended.  For every current card and every submitted text that is not blank after
  trimming, the submission is judged correct (success feedback, or the score-update error
  when the store refuses the update) exactly when the text and the stored answer are equal
  after lowercasing and trimming, and judged wrong exactly when they differ.  So
  \<open>'' Paris ''\<close> and \<open>''paris''\<close> match the stored answer \<open>''Paris''\<close>, while a prefix, a
  misspelling and an inner space do not.  A text that is blank after trimming is not judged
  at all: the session and the store stay as they are.
\<close>

theorem C2_answer_comparison:
  assumes "currentCard st = Some fc"
  shows "(trim (userAnswer st) \<noteq> [] \<longrightarrow>
            (feedback (fst (submitAnswer rid uid f_upd f_ins st d)) =
               Some (if f_upd = None then correct_feedback else update_failed_feedback)) =
              (trim (toLowerCase (userAnswer st)) = trim (toLowerCase (answer fc))) \<and>
            (feedback (fst (submitAnswer rid uid f_upd f_ins st d)) = Some (wrong_feedback fc)) =
              (trim (toLowerCase (userAnswer st)) \<noteq> trim (toLowerCase (answer fc)))) \<and>
         (trim (userAnswer st) = [] \<longrightarrow> submitAnswer rid uid f_upd f_ins st d = (st, d)) \<and>
         isCorrect '' Paris '' paris_card \<and> isCorrect ''paris'' paris_card \<and>
         \<not> isCorrect ''Par'' paris_card \<and> \<not> isCorrect ''Parris'' paris_card \<and>
         \<not> isCorrect ''Pa ris'' paris_card"
proof -
  have examples:
    "isCorrect '' Paris '' paris_card \<and> isCorrect ''paris'' paris_card \<and>
     \<not> isCorrect ''Par'' paris_card \<and> \<not> isCorrect ''Parris'' paris_card \<and>
     \<not> isCorrect ''Pa ris'' paris_card"
    by (simp add: isCorrect_def paris_card_def trim_def toLowerCase_def lowerChar_def
        isWhiteSpace_def)
  have blank: "submitAnswer rid uid f_upd f_ins st d = (st, d)" if "trim (userAnswer st) = []"
    using that assms by (simp add: submitAnswer_def)
  have judged:
    "(feedback (fst (submitAnswer rid uid f_upd f_ins st d)) =
        Some (if f_upd = None then correct_feedback else update_failed_feedback)) =
       (trim (toLowerCase (userAnswer st)) = trim (toLowerCase (answer fc))) \<and>
     (feedback (fst (submitAnswer rid uid f_upd f_ins st d)) = Some (wrong_feedback fc)) =
       (trim (toLowerCase (userAnswer st)) \<noteq> trim (toLowerCase (answer fc)))"
    if "trim (userAnswer st) \<noteq> []"
  proof (cases "isCorrect (userAnswer st) fc")
    case True
    with assms that feedback_distinct [of fc] show ?thesis
      by (cases f_upd) (auto simp add: submitAnswer_def update_score_def isCorrect_def)
  next
    case False
    with assms that feedback_distinct [of fc] show ?thesis
      by (cases f_upd) (auto simp add: submitAnswer_def update_score_def isCorrect_def)
  qed
  from examples blank judged show ?thesis by blast
qed

theorem C2_answer_comparison_witness:
  "currentCard sample_session = Some paris_card \<and>
   trim (userAnswer sample_session) \<noteq> [] \<and>
   feedback (fst (submitAnswer ''r1'' ''u2'' None None sample_session sample_db)) =
     Some correct_feedback \<and>
   trim (userAnswer (sample_session\<lparr>userAnswer := ''  ''\<rparr>)) = [] \<and>
   submitAnswer ''r1'' ''u2'' None None (sample_session\<lparr>userAnswer := ''  ''\<rparr>) sample_db =
     (sample_session\<lparr>userAnswer := ''  ''\<rparr>, sample_db)"
proof -
  have shown: "currentCard sample_session = Some paris_card"
    by (simp add: sample_session_def)
  have shown': "currentCard (sample_session\<lparr>userAnswer := ''  ''\<rparr>) = Some paris_card"
    by (simp add: sample_session_def)
  have blank: "trim (userAnswer (sample_session\<lparr>userAnswer := ''  ''\<rparr>)) = []"
    by (simp add: trim_def isWhiteSpace_def)
  from C2_answer_comparison [OF shown, of "''r1''" "''u2''" None None sample_db]
    C2_answer_comparison [OF shown', of "''r1''" "''u2''" None None sample_db]
    sample_answer_correct shown blank
  show ?thesis by simp
qed

text \<open>
  C2 as stated fails for a blank submission against a card whose stored answer is empty: the
  two strings are equal after lowercasing and trimming, yet \<open>submitAnswer\<close> returns at its
  guard and judges nothing (no feedback, no score, no record).
\<close>

theorem C2_blank_submission_counterexample:
  "reachable ''r1'' ''u2'' blank_session blank_db \<and>
   currentCard blank_session = Some blank_card \<and>
   trim (toLowerCase (userAnswer blank_session)) = trim (toLowerCase (answer blank_card)) \<and>
   submitAnswer ''r1'' ''u2'' None None blank_session blank_db = (blank_session, blank_db) \<and>
   feedback blank_session = None"
proof -
  have "reachable ''r1'' ''u2'' blank_session blank_db"
    unfolding blank_session_def
    by (intro reachable.typed reachable.card_fetched reachable.players_fetched reachable.enter)
  moreover have "trim (toLowerCase (userAnswer blank_session)) = trim (toLowerCase (answer blank_card))"
    by (simp add: blank_session_eq blank_card_def trim_def toLowerCase_def isWhiteSpace_def
      lowerChar_def)
  moreover have "submitAnswer ''r1'' ''u2'' None None blank_session blank_db = (blank_session, blank_db)"
    by (simp add: blank_session_eq submitAnswer_def trim_def isWhiteSpace_def)
  ultimately show ?thesis by (simp add: blank_session_eq)
qed

text \<open>
  C7.  An incorrect submission (a card is current, the text is not blank after trimming, the
  normalised strings differ) sets the failure feedback, whose message ends with the stored
  answer, clears the input, and hands the store back as it was: no score is written, no
  match record is inserted, no room is touched; no timer is started.
\<close>

theorem C7_incorrect_submission:
  assumes "currentCard st = Some fc"
    and "trim (userAnswer st) \<noteq> []"
    and "trim (toLowerCase (userAnswer st)) \<noteq> trim (toLowerCase (answer fc))"
  shows "submitAnswer rid uid f_upd f_ins st d =
           (st\<lparr>feedback :=
                 Some \<lparr>fb_message = ''Wrong! The correct answer was: '' @ answer fc,
                       fb_type = error\<rparr>,
               loading := False, userAnswer := []\<rparr>, d)"
  using assms by (simp add: submitAnswer_def isCorrect_def wrong_feedback_def)

theorem C7_incorrect_submission_witness:
  "submitAnswer ''r1'' ''u2'' None None (sample_session\<lparr>userAnswer := ''Lyon''\<rparr>) sample_db =
     (sample_session\<lparr>feedback :=
                       Some \<lparr>fb_message = ''Wrong! The correct answer was: Paris'',
                             fb_type = error\<rparr>,
                     loading := False, userAnswer := []\<rparr>, sample_db)"
  using C7_incorrect_submission
    [of "sample_session\<lparr>userAnswer := ''Lyon''\<rparr>" paris_card "''r1''" "''u2''" None None sample_db]
  by (simp add: sample_session_def paris_card_def trim_def toLowerCase_def lowerChar_def
      isWhiteSpace_def)

text \<open>
  C10.  When the answer is correct and the score update returns an error, the session shows
  the error feedback and the store is handed back as it was: no match record, no success
  feedback, no timer.  In every run, a new match record or a new timer implies that the
  score update returned no error.
\<close>

theorem C10_update_error_stops:
  "(currentCard st = Some fc \<and> trim (userAnswer st) \<noteq> [] \<and> isCorrect (userAnswer st) fc \<longrightarrow>
      submitAnswer rid uid (Some e) f_ins st d =
        (st\<lparr>feedback := Some update_failed_feedback, loading := False, userAnswer := []\<rparr>, d)) \<and>
   (match_history (snd (submitAnswer rid uid f_upd f_ins st d)) \<noteq> match_history d \<longrightarrow>
      f_upd = None) \<and>
   (timers (fst (submitAnswer rid uid f_upd f_ins st d)) \<noteq> timers st \<longrightarrow> f_upd = None)"
proof (intro conjI impI)
  assume "currentCard st = Some fc \<and> trim (userAnswer st) \<noteq> [] \<and> isCorrect (userAnswer st) fc"
  then show "submitAnswer rid uid (Some e) f_ins st d =
      (st\<lparr>feedback := Some update_failed_feedback, loading := False, userAnswer := []\<rparr>, d)"
    by (simp add: submitAnswer_def update_score_def)
next
  assume "match_history (snd (submitAnswer rid uid f_upd f_ins st d)) \<noteq> match_history d"
  then show "f_upd = None"
    using submitAnswer_update_refused [of rid uid _ f_ins st d] by (cases f_upd) auto
next
  assume "timers (fst (submitAnswer rid uid f_upd f_ins st d)) \<noteq> timers st"
  then show "f_upd = None"
    using submitAnswer_update_refused [of rid uid _ f_ins st d] by (cases f_upd) auto
qed

theorem C10_update_error_stops_witness:
  "submitAnswer ''r1'' ''u2'' (Some fetch_failed) None sample_session sample_db =
     (sample_session\<lparr>feedback :=
                       Some \<lparr>fb_message = ''Error updating score. Please try again.'',
                             fb_type = error\<rparr>,
                     loading := False, userAnswer := []\<rparr>, sample_db) \<and>
   match_history (snd (submitAnswer ''r1'' ''u2'' None None sample_session sample_db)) \<noteq>
     match_history sample_db \<and>
   timers (fst (submitAnswer ''r1'' ''u2'' None None sample_session sample_db)) \<noteq>
     timers sample_session"
  using C10_update_error_stops
    [of sample_session paris_card "''r1''" "''u2''" fetch_failed None sample_db None]
    sample_answer_correct
  by (simp add: isCorrect_def update_failed_feedback_def)
     (simp add: submitAnswer_def isCorrect_def update_score_def insert_match_def
      sample_session_def sample_db_def)

section \<open>The lobby\<close>

text \<open>
  C9, as amended.  When the requested room name is empty after trimming, \<open>createRoom\<close> (either
  copy) returns at once: the lobby state, with its list of notices, and the store are what
  they were, so no room and no membership is inserted and nothing is reported.
\<close>

theorem C9_blank_name_ignored:
  assumes "trim (newRoomName lb) = []"
  shows "createRoom auth new_id f_room f_join lb d = (lb, d) \<and>
         createRoom_prev auth f_sel f_prof new_id f_room f_join lb d = (lb, d)"
  using assms by (simp add: createRoom_def createRoom_prev_def)

theorem C9_blank_name_ignored_witness:
  "createRoom (Some sample_user) ''r2'' None None (initial_lobby\<lparr>newRoomName := ''   ''\<rparr>)
       sample_db =
     (initial_lobby\<lparr>newRoomName := ''   ''\<rparr>, sample_db) \<and>
   createRoom_prev (Some sample_user) None None ''r2'' None None
       (initial_lobby\<lparr>newRoomName := ''   ''\<rparr>) sample_db =
     (initial_lobby\<lparr>newRoomName := ''   ''\<rparr>, sample_db)"
  using C9_blank_name_ignored
    [of "initial_lobby\<lparr>newRoomName := ''   ''\<rparr>" "Some sample_user" "''r2''" None None sample_db
      None None]
  by (simp add: trim_def isWhiteSpace_def)

text \<open>
  C9 as stated fails in its first half: for a name of three spaces no error is raised or
  shown by either copy; the list of notices stays empty.
\<close>

theorem C9_no_error_counterexample:
  "trim ''   '' = [] \<and>
   notices (fst (createRoom (Some sample_user) ''r2'' None None
                   (initial_lobby\<lparr>newRoomName := ''   ''\<rparr>) sample_db)) = [] \<and>
   notices (fst (createRoom_prev (Some sample_user) None None ''r2'' None None
                   (initial_lobby\<lparr>newRoomName := ''   ''\<rparr>) sample_db)) = []"
  by (simp add: createRoom_def createRoom_prev_def trim_def isWhiteSpace_def initial_lobby_def)

text \<open>
  Listing the active rooms.  The copy under \<open>components/\<close> lists every active room with the
  number of its player rows, a room without player rows with 0.
\<close>

lemma fetchRooms_lists_every_active_room:
  "rooms (fetchRooms None lb d) =
     map (\<lambda>r. (r, length (filter (\<lambda>p. player_room_id p = room_id r) (game_players d))))
       (filter is_active (game_rooms d))"
  by (simp add: fetchRooms_def with_count_def embedded_players_def cong: map_cong)

lemma fetchRooms_keeps_empty_room:
  assumes "r \<in> set (game_rooms d)" and "is_active r"
    and "\<forall>p \<in> set (game_players d). player_room_id p \<noteq> room_id r"
  shows "(r, 0) \<in> set (rooms (fetchRooms None lb d))"
proof -
  from assms(3) have "filter (\<lambda>p. player_room_id p = room_id r) (game_players d) = []"
    by (simp add: filter_empty_conv)
  with assms(1,2) show ?thesis
    by (force simp add: fetchRooms_def with_count_def embedded_players_def)
qed

lemma orphan_db_eq:
  "orphan_db =
     sample_db\<lparr>game_rooms :=
       [quiz_room,
        \<lparr>room_id = ''r2'', room_name = ''Quiz2'', host_id = ''u2'', is_active = True,
         current_card_id = None\<rparr>]\<rparr>"
  by (simp add: orphan_db_def createRoom_def initial_lobby_def trim_def isWhiteSpace_def
      insert_room_def insert_player_def room_rows_def sample_db_def quiz_room_def
      sample_user_def Let_def)

text \<open>
  C4.  The earlier copy of \<open>fetchRooms\<close> does not list a room without player rows.  Over a
  store with the one active room \<open>Quiz1\<close> and an empty \<open>game_players\<close> it yields no room at
  all, and after a room creation whose host could not be joined it yields the other room
  only; the copy under \<open>components/\<close> lists the room without players with \<open>player_count\<close> 0
  in both stores.
\<close>

theorem C4_prev_omits_empty_room:
  "rooms (fetchRooms_prev None initial_lobby empty_room_db) = [] \<and>
   rooms (fetchRooms None initial_lobby empty_room_db) = [(quiz_room, 0)] \<and>
   is_active quiz_room \<and> game_rooms empty_room_db = [quiz_room] \<and>
   game_players empty_room_db = [] \<and>
   rooms (fetchRooms_prev None initial_lobby orphan_db) = [(quiz_room, 1)] \<and>
   rooms (fetchRooms None initial_lobby orphan_db) =
     [(quiz_room, 1),
      (\<lparr>room_id = ''r2'', room_name = ''Quiz2'', host_id = ''u2'', is_active = True,
        current_card_id = None\<rparr>, 0)]"
  by (simp add: orphan_db_eq fetchRooms_prev_def fetchRooms_def with_count_def
      embedded_players_def empty_room_db_def sample_db_def quiz_room_def)

text \<open>Joining.\<close>

lemma insert_player_error: "insert_player fault rid uid d = (Some e, d1) \<Longrightarrow> d1 = d"
  by (auto simp add: insert_player_def split: option.splits if_splits)


lemma insert_player_member:
  "length (member_rows d rid uid) \<le> 1 \<Longrightarrow>
   length (member_rows (snd (insert_player None rid uid d)) rid uid) = 1"
  by (cases "member_rows d rid uid")
     (auto simp add: insert_player_def member_rows_def is_member_def)

lemma joinRoom_store:
  "snd (joinRoom rid auth fault lb d) =
     (case auth of None \<Rightarrow> d | Some u \<Rightarrow> snd (insert_player fault rid (auth_id u) d))"
  by (auto simp add: joinRoom_def split: option.splits prod.splits dest: insert_player_error)

lemma joinRoom_prev_store:
  "snd (joinRoom_prev rid auth fault lb d) =
     (case auth of None \<Rightarrow> d | Some u \<Rightarrow> snd (insert_player fault rid (auth_id u) d))"
  by (auto simp add: joinRoom_prev_def split: option.splits prod.splits
      dest: insert_player_error)

text \<open>
  C3.  Let the store keep at most one membership row per room and account, and let an
  account join a room once, the store answering the insert (first join, either copy).  Then
  there is exactly one membership row for the room and the account, and a second join by the
  same account leaves the store as it is and enters the room without any notice: the store
  answers the insert with the unique-violation code 23505, which is taken as success.  A
  join error with code 23505 of whatever origin is treated the same way; an error with any
  other code is reported to the user, with its message, and the room is not entered.
\<close>

theorem C3_second_join:
  assumes "length (member_rows d rid (auth_id u)) \<le> 1"
    and "dj = snd (joinRoom rid (Some u) None lb_first d) \<or>
         dj = snd (joinRoom_prev rid (Some u) None lb_first d)"
  shows "length (member_rows dj rid (auth_id u)) = 1 \<and>
         joinRoom rid (Some u) None lb dj = (lb\<lparr>activeRoom := Some rid\<rparr>, dj) \<and>
         joinRoom_prev rid (Some u) None lb dj = (lb\<lparr>activeRoom := Some rid\<rparr>, dj) \<and>
         (code e = ''23505'' \<longrightarrow>
            joinRoom rid (Some u) (Some e) lb dj = (lb\<lparr>activeRoom := Some rid\<rparr>, dj) \<and>
            joinRoom_prev rid (Some u) (Some e) lb dj = (lb\<lparr>activeRoom := Some rid\<rparr>, dj)) \<and>
         (code e \<noteq> ''23505'' \<longrightarrow>
            joinRoom rid (Some u) (Some e) lb dj =
              (lb\<lparr>notices := notices lb @
                     [Toast ''Error'' (''Failed to join room: '' @ message e) destructive]\<rparr>,
               dj) \<and>
            joinRoom_prev rid (Some u) (Some e) lb dj =
              (lb\<lparr>notices := notices lb @ [Alert (''Failed to join room: '' @ message e)]\<rparr>,
               dj))"
proof -
  from assms have one: "length (member_rows dj rid (auth_id u)) = 1"
    by (auto simp add: joinRoom_store joinRoom_prev_store insert_player_member)
  then have "member_rows dj rid (auth_id u) \<noteq> []" by auto
  then have dup: "insert_player None rid (auth_id u) dj = (Some unique_violation, dj)"
    by (simp add: insert_player_def)
  have refused: "insert_player (Some e) rid (auth_id u) dj = (Some e, dj)"
    by (simp add: insert_player_def)
  show ?thesis
    using one dup refused by (simp add: joinRoom_def joinRoom_prev_def unique_violation_def)
qed

theorem C3_second_join_witness:
  "length (member_rows empty_room_db ''r1'' ''u2'') \<le> 1 \<and>
   game_players (snd (joinRoom ''r1'' (Some sample_user) None initial_lobby empty_room_db)) =
     [\<lparr>player_room_id = ''r1'', player_user_id = ''u2'', score = 0\<rparr>] \<and>
   joinRoom ''r1'' (Some sample_user) None initial_lobby
       (snd (joinRoom ''r1'' (Some sample_user) None initial_lobby empty_room_db)) =
     (initial_lobby\<lparr>activeRoom := Some ''r1''\<rparr>,
      snd (joinRoom ''r1'' (Some sample_user) None initial_lobby empty_room_db))"
proof -
  have none: "member_rows empty_room_db ''r1'' ''u2'' = []"
    by (simp add: member_rows_def empty_room_db_def sample_db_def)
  have uid: "auth_id sample_user = ''u2''"
    by (simp add: sample_user_def)
  have first: "game_players (snd (joinRoom ''r1'' (Some sample_user) None initial_lobby
                                    empty_room_db)) =
                 [\<lparr>player_room_id = ''r1'', player_user_id = ''u2'', score = 0\<rparr>]"
    using none by (simp add: joinRoom_store insert_player_def uid)
                  (simp add: empty_room_db_def sample_db_def)
  show ?thesis
    using C3_second_join
      [where d = empty_room_db and rid = "''r1''" and u = sample_user
        and dj = "snd (joinRoom ''r1'' (Some sample_user) None initial_lobby empty_room_db)"
        and lb_first = initial_lobby and lb = initial_lobby and e = fetch_failed]
      none first
    by (simp add: uid)
qed

section \<open>What a session knows of its room\<close>



lemma insert_room_cases:
  "insert_room fault new_id nm host d = (Inl e, d1) \<Longrightarrow> d1 = d"
  "insert_room fault new_id nm host d = (Inr r, d1) \<Longrightarrow>
     room_rows d (room_id r) = [] \<and> game_rooms d1 = game_rooms d @ [r] \<and>
     game_players d1 = game_players d \<and> room_id r = new_id"
  by (auto simp add: insert_room_def Let_def split: option.splits if_splits)




































section \<open>Scores only grow\<close>

lemma unique_same_row:
  "unique_members d \<Longrightarrow> p \<in> set (game_players d) \<Longrightarrow> q \<in> set (game_players d) \<Longrightarrow>
   member_key q = member_key p \<Longrightarrow> q = p"
  by (auto simp add: unique_members_def distinct_map dest: inj_onD)

lemma scores_kept_subset:
  "unique_members d \<Longrightarrow> set (game_players d') \<subseteq> set (game_players d) \<Longrightarrow> scores_kept d d'"
  by (auto simp add: scores_kept_def dest: unique_same_row)

lemma scores_kept_same:
  "unique_members d \<Longrightarrow> game_players d' = game_players d \<Longrightarrow> scores_kept d d'"
  by (simp add: scores_kept_subset)

lemma is_member_key: "is_member rid uid p = (member_key p = (rid, uid))"
  by (auto simp add: is_member_def member_key_def)

lemma scores_kept_insert_player:
  "unique_members d \<Longrightarrow> scores_kept d (snd (insert_player fault rid uid d))"
proof (cases "fault = None \<and> member_rows d rid uid = []")
  case False
  moreover assume "unique_members d"
  ultimately show ?thesis
    by (auto simp add: insert_player_def intro: scores_kept_same split: option.splits)
next
  case True
  assume u: "unique_members d"
  from True have none: "\<forall>p \<in> set (game_players d). member_key p \<noteq> (rid, uid)"
    by (auto simp add: member_rows_def filter_empty_conv is_member_key)
  from True have "game_players (snd (insert_player fault rid uid d)) =
      game_players d @ [\<lparr>player_room_id = rid, player_user_id = uid, score = 0\<rparr>]"
    by (simp add: insert_player_def)
  with u none show ?thesis
    by (auto simp add: scores_kept_def member_key_def dest: unique_same_row)
qed

lemma new_rows_insert_player:
  "q \<in> set (game_players (snd (insert_player fault rid uid d))) \<Longrightarrow>
   q \<notin> set (game_players d) \<Longrightarrow> score q = 0"
  by (auto simp add: insert_player_def split: option.splits if_splits)

lemma scores_kept_delete_player:
  "unique_members d \<Longrightarrow> scores_kept d (snd (delete_player fault rid uid d))"
  by (auto simp add: delete_player_def intro!: scores_kept_subset split: option.splits)

lemma scores_kept_update_score:
  assumes "unique_members d"
    and "\<forall>p \<in> set (member_rows d rid uid). score p \<le> n"
  shows "scores_kept d (snd (update_score fault rid uid n d))"
proof (cases fault)
  case (Some e)
  with assms(1) show ?thesis by (simp add: update_score_def scores_kept_same)
next
  case None
  show ?thesis
    unfolding scores_kept_def
  proof (intro ballI impI)
    fix p q
    assume p: "p \<in> set (game_players d)"
      and q: "q \<in> set (game_players (snd (update_score fault rid uid n d)))"
      and k: "member_key q = member_key p"
    from q None obtain p' where p': "p' \<in> set (game_players d)"
      and q': "q = (if is_member rid uid p' then p'\<lparr>score := n\<rparr> else p')"
      by (auto simp add: update_score_def)
    from q' have "member_key q = member_key p'"
      by (simp add: member_key_def)
    with k assms(1) p p' have same: "p' = p"
      by (auto dest: unique_same_row)
    show "score p \<le> score q"
    proof (cases "is_member rid uid p")
      case True
      with p have "p \<in> set (member_rows d rid uid)" by (simp add: member_rows_def)
      with assms(2) have "score p \<le> n" by blast
      with True q' same show ?thesis by simp
    next
      case False
      with q' same show ?thesis by simp
    qed
  qed
qed

lemma game_players_insert_match:
  "game_players (snd (insert_match fault rid cid uid d)) = game_players d"
  by (simp add: insert_match_def split: option.splits)

lemma game_players_update_current_card:
  "game_players (snd (update_current_card fault rid cid d)) = game_players d"
  by (simp add: update_current_card_def split: option.splits)

lemma game_players_ensure_profile:
  "game_players (ensure_profile f_sel f_prof u d) = game_players d"
  by (simp add: ensure_profile_def insert_profile_def split: option.splits)

lemma scores_kept_cong:
  "game_players d2 = game_players d1 \<Longrightarrow> scores_kept d d1 \<Longrightarrow> scores_kept d d2"
  by (simp add: scores_kept_def)

lemma scores_kept_cong_left:
  "game_players dz = game_players d \<Longrightarrow> scores_kept dz d' \<Longrightarrow> scores_kept d d'"
  by (simp add: scores_kept_def)

lemma scores_kept_submitAnswer:
  assumes "unique_members d"
    and "\<forall>p \<in> set (member_rows d rid uid). score p \<le> cachedScore (players st) uid + 1"
  shows "scores_kept d (snd (submitAnswer rid uid f_upd f_ins st d))"
proof -
  have upd: "scores_kept d (snd (update_score f_upd rid uid (newScore (players st) uid) d))"
    using assms by (simp add: scores_kept_update_score newScore_def)
  have "game_players (snd (submitAnswer rid uid f_upd f_ins st d)) = game_players d \<or>
        game_players (snd (submitAnswer rid uid f_upd f_ins st d)) =
          game_players (snd (update_score f_upd rid uid (newScore (players st) uid) d))"
    by (auto simp add: submitAnswer_def game_players_insert_match split: option.splits prod.splits)
  with assms(1) upd show ?thesis
    by (auto intro: scores_kept_same scores_kept_cong)
qed

lemma scores_kept_roundBody:
  "unique_members d \<Longrightarrow> scores_kept d (snd (roundBody rid cards f_upd st d))"
  by (auto simp add: roundBody_def game_players_update_current_card intro: scores_kept_same
      split: option.splits list.splits)

lemma scores_kept_startNewRound:
  "unique_members d \<Longrightarrow> scores_kept d (snd (startNewRound rid cards f_upd st d))"
  by (simp add: startNewRound_def scores_kept_roundBody scores_kept_same)

lemma scores_kept_timerFires:
  "unique_members d \<Longrightarrow> scores_kept d (snd (timerFires rid cards f_upd st d))"
  by (simp add: timerFires_def scores_kept_roundBody scores_kept_same split: list.splits)

lemma createRoom_store:
  "snd (createRoom auth new_id f_room f_join lb d) =
     (if trim (newRoomName lb) = [] then d
      else
        (case auth of
           None \<Rightarrow> d
         | Some u \<Rightarrow>
             (case insert_room f_room new_id (newRoomName lb) (auth_id u) d of
                (Inl e, d1) \<Rightarrow> d
              | (Inr data, d1) \<Rightarrow> snd (insert_player f_join (room_id data) (auth_id u) d1))))"
  by (auto simp add: createRoom_def split: option.splits prod.splits sum.splits
      dest: insert_player_error)

lemma createRoom_prev_store:
  "snd (createRoom_prev auth f_sel f_prof new_id f_room f_join lb d) =
     (if trim (newRoomName lb) = [] then d
      else
        (case auth of
           None \<Rightarrow> d
         | Some u \<Rightarrow>
             (case insert_room f_room new_id (newRoomName lb) (auth_id u)
                     (ensure_profile f_sel f_prof u d) of
                (Inl e, d1) \<Rightarrow> ensure_profile f_sel f_prof u d
              | (Inr data, d1) \<Rightarrow> snd (insert_player f_join (room_id data) (auth_id u) d1))))"
  by (auto simp add: createRoom_prev_def Let_def split: option.splits prod.splits sum.splits
      dest: insert_player_error)

lemma scores_kept_joinRoom:
  "unique_members d \<Longrightarrow> scores_kept d (snd (joinRoom rid auth fault lb d))"
  by (simp add: joinRoom_store scores_kept_same scores_kept_insert_player split: option.splits)

lemma scores_kept_joinRoom_prev:
  "unique_members d \<Longrightarrow> scores_kept d (snd (joinRoom_prev rid auth fault lb d))"
  by (simp add: joinRoom_prev_store scores_kept_same scores_kept_insert_player
      split: option.splits)

lemma scores_kept_after_insert_room:
  assumes "unique_members d" and "game_players dz = game_players d"
    and "insert_room f_room new_id nm host dz = (Inr data, d1)"
  shows "scores_kept d (snd (insert_player f_join rid uid d1))"
proof -
  from assms(3) have "game_players d1 = game_players dz"
    by (auto dest: insert_room_cases(2))
  with assms(2) have eq: "game_players d1 = game_players d" by simp
  with assms(1) have "unique_members d1" by (simp add: unique_members_def)
  then have "scores_kept d1 (snd (insert_player f_join rid uid d1))"
    by (rule scores_kept_insert_player)
  with eq show ?thesis by (rule scores_kept_cong_left)
qed

lemma scores_kept_createRoom:
  assumes "unique_members d"
  shows "scores_kept d (snd (createRoom auth new_id f_room f_join lb d))"
  using assms
  by (auto simp add: createRoom_store scores_kept_same
      intro: scores_kept_after_insert_room [where dz = d]
      split: option.splits prod.splits sum.splits)

lemma scores_kept_createRoom_prev:
  assumes "unique_members d"
  shows "scores_kept d (snd (createRoom_prev auth f_sel f_prof new_id f_room f_join lb d))"
  using assms
  by (auto simp add: createRoom_prev_store scores_kept_same game_players_ensure_profile
      intro: scores_kept_after_insert_room [where dz = "ensure_profile f_sel f_prof u d" for u]
      split: option.splits prod.splits sum.splits)

lemma scores_kept_leaveRoom:
  "unique_members d \<Longrightarrow> scores_kept d (snd (leaveRoom rid uid fault lb d))"
  by (simp add: leaveRoom_def scores_kept_delete_player)

lemma find_Some_mem: "find P xs = Some x \<Longrightarrow> x \<in> set xs \<and> P x"
  by (induction xs) (auto split: if_splits)

lemma fresh_cache:
  assumes "unique_members d" and "p \<in> set (member_rows d rid uid)"
  shows "cachedScore (players (fetchPlayers rid None st d)) uid = score p"
proof -
  let ?ps = "sort_key (\<lambda>p. - score p) (filter (\<lambda>p. player_room_id p = rid) (game_players d))"
  from assms(2) have p: "p \<in> set (game_players d)" "player_room_id p = rid" "player_user_id p = uid"
    by (auto simp add: member_rows_def is_member_def)
  then have "p \<in> set ?ps" by simp
  with p(3) obtain q where q: "find (\<lambda>p. player_user_id p = uid) ?ps = Some q"
    by (cases "find (\<lambda>p. player_user_id p = uid) ?ps") (auto simp add: find_None_iff)
  then have "q \<in> set ?ps" "player_user_id q = uid"
    by (auto dest: find_Some_mem)
  then have "q \<in> set (game_players d)" "member_key q = member_key p"
    using p by (auto simp add: member_key_def)
  with assms(1) p(1) have "q = p" by (auto dest: unique_same_row)
  with q show ?thesis
    by (simp add: cachedScore_def fetchPlayers_def)
qed

lemma new_rows_joinRoom:
  "q \<in> set (game_players (snd (joinRoom rid auth fault lb d))) \<Longrightarrow>
   q \<notin> set (game_players d) \<Longrightarrow> score q = 0"
  by (auto simp add: joinRoom_store split: option.splits dest: new_rows_insert_player)

lemma new_rows_joinRoom_prev:
  "q \<in> set (game_players (snd (joinRoom_prev rid auth fault lb d))) \<Longrightarrow>
   q \<notin> set (game_players d) \<Longrightarrow> score q = 0"
  by (auto simp add: joinRoom_prev_store split: option.splits dest: new_rows_insert_player)

lemma new_rows_after_insert_room:
  assumes "insert_room f_room new_id nm host dz = (Inr data, d1)"
    and "game_players dz = game_players d"
    and "q \<in> set (game_players (snd (insert_player f_join rid uid d1)))"
    and "q \<notin> set (game_players d)"
  shows "score q = 0"
proof -
  from assms(1,2) have "game_players d1 = game_players d"
    by (auto dest: insert_room_cases(2))
  with assms(3,4) show ?thesis
    by (auto dest: new_rows_insert_player)
qed

lemma new_rows_createRoom:
  "q \<in> set (game_players (snd (createRoom auth new_id f_room f_join lb d))) \<Longrightarrow>
   q \<notin> set (game_players d) \<Longrightarrow> score q = 0"
  by (auto simp add: createRoom_store split: option.splits prod.splits sum.splits if_splits
      dest: new_rows_after_insert_room [where d = d and dz = d])

lemma new_rows_createRoom_prev:
  "q \<in> set (game_players (snd (createRoom_prev auth f_sel f_prof new_id f_room f_join lb d))) \<Longrightarrow>
   q \<notin> set (game_players d) \<Longrightarrow> score q = 0"
  by (auto simp add: createRoom_prev_store game_players_ensure_profile
      split: option.splits prod.splits sum.splits if_splits
      dest: new_rows_after_insert_room [where d = d, OF _ game_players_ensure_profile])

text \<open>The store keeps the membership key unique under every operation.\<close>

lemma unique_members_insert_player:
  "unique_members d \<Longrightarrow> unique_members (snd (insert_player fault rid uid d))"
  by (auto simp add: unique_members_def insert_player_def member_rows_def filter_empty_conv
      is_member_def member_key_def split: option.splits)

lemma unique_members_update_score:
  "unique_members d \<Longrightarrow> unique_members (snd (update_score fault rid uid n d))"
proof -
  have "member_key \<circ> (\<lambda>p. if is_member rid uid p then p\<lparr>score := n\<rparr> else p) = member_key"
    by (rule ext) (simp add: member_key_def)
  then show "unique_members d \<Longrightarrow> unique_members (snd (update_score fault rid uid n d))"
    by (simp add: unique_members_def update_score_def split: option.splits)
qed

lemma unique_members_delete_player:
  "unique_members d \<Longrightarrow> unique_members (snd (delete_player fault rid uid d))"
  by (simp add: unique_members_def delete_player_def distinct_map_filter split: option.splits)

lemma unique_members_players:
  "game_players d' = game_players d \<Longrightarrow> unique_members d \<Longrightarrow> unique_members d'"
  by (simp add: unique_members_def)

lemma store_step_unique_members: "store_step d d' \<Longrightarrow> unique_members d \<Longrightarrow> unique_members d'"
proof (induction rule: store_step.induct)
  case (by_join d rid auth fault lb)
  then show ?case
    by (simp add: joinRoom_store unique_members_insert_player split: option.splits)
next
  case (by_join_prev d rid auth fault lb)
  then show ?case
    by (simp add: joinRoom_prev_store unique_members_insert_player split: option.splits)
next
  case (by_create d auth new_id f_room f_join lb)
  then show ?case
    by (auto simp add: createRoom_store split: option.splits prod.splits sum.splits
        dest!: insert_room_cases(2)
        intro!: unique_members_insert_player intro: unique_members_players)
next
  case (by_create_prev d auth f_sel f_prof new_id f_room f_join lb)
  then show ?case
    by (auto simp add: createRoom_prev_store game_players_ensure_profile
        split: option.splits prod.splits sum.splits
        dest!: insert_room_cases(2)
        intro!: unique_members_insert_player
        intro: unique_members_players [OF game_players_ensure_profile]
          unique_members_players)
next
  case (by_leave d rid uid fault lb)
  then show ?case by (simp add: leaveRoom_def unique_members_delete_player)
next
  case (by_submit d rid uid f_upd f_ins st)
  have "game_players (snd (submitAnswer rid uid f_upd f_ins st d)) = game_players d \<or>
        game_players (snd (submitAnswer rid uid f_upd f_ins st d)) =
          game_players (snd (update_score f_upd rid uid (newScore (players st) uid) d))"
    by (auto simp add: submitAnswer_def game_players_insert_match split: option.splits prod.splits)
  with by_submit show ?case
    by (auto intro: unique_members_players dest: unique_members_update_score)
next
  case (by_round d rid cards f_upd st)
  then show ?case
    by (auto simp add: startNewRound_def roundBody_def game_players_update_current_card
        intro: unique_members_players split: option.splits list.splits)
next
  case (by_timer d rid cards f_upd st)
  then show ?case
    by (auto simp add: timerFires_def roundBody_def game_players_update_current_card
        intro: unique_members_players split: option.splits list.splits)
qed

text \<open>
  C6, as amended.  Over a store that keeps membership rows unique per room and account: no
  run of \<open>startNewRound\<close> (called or fired by the timer), \<open>joinRoom\<close>, \<open>leaveRoom\<close> or
  \<open>createRoom\<close> lowers the score of a membership row, and a row they add starts with score
  0.  \<open>submitAnswer\<close> writes the cached score plus 1; it lowers no score when the stored
  score of the submitter is at most the cached score plus 1, in particular when the cached
  leaderboard is the one \<open>fetchPlayers\<close> reads from the present store.
\<close>

theorem C6_scores_never_decrease:
  assumes "unique_members d"
  shows "scores_kept d (snd (startNewRound rid cards f_upd st d)) \<and>
         scores_kept d (snd (timerFires rid cards f_upd st d)) \<and>
         scores_kept d (snd (joinRoom rid auth fault lb d)) \<and>
         scores_kept d (snd (joinRoom_prev rid auth fault lb d)) \<and>
         scores_kept d (snd (leaveRoom rid uid fault lb d)) \<and>
         scores_kept d (snd (createRoom auth new_id f_room f_join lb d)) \<and>
         scores_kept d (snd (createRoom_prev auth f_sel f_prof new_id f_room f_join lb d)) \<and>
         ((\<forall>p \<in> set (member_rows d rid uid). score p \<le> cachedScore (players st) uid + 1) \<longrightarrow>
            scores_kept d (snd (submitAnswer rid uid f_upd f_ins st d))) \<and>
         (players st = players (fetchPlayers rid None st0 d) \<longrightarrow>
            scores_kept d (snd (submitAnswer rid uid f_upd f_ins st d))) \<and>
         (\<forall>q \<in> set (game_players (snd (joinRoom rid auth fault lb d))).
            q \<notin> set (game_players d) \<longrightarrow> score q = 0) \<and>
         (\<forall>q \<in> set (game_players (snd (joinRoom_prev rid auth fault lb d))).
            q \<notin> set (game_players d) \<longrightarrow> score q = 0) \<and>
         (\<forall>q \<in> set (game_players (snd (createRoom auth new_id f_room f_join lb d))).
            q \<notin> set (game_players d) \<longrightarrow> score q = 0) \<and>
         (\<forall>q \<in> set (game_players
                       (snd (createRoom_prev auth f_sel f_prof new_id f_room f_join lb d))).
            q \<notin> set (game_players d) \<longrightarrow> score q = 0)"
proof -
  have fresh: "scores_kept d (snd (submitAnswer rid uid f_upd f_ins st d))"
    if "players st = players (fetchPlayers rid None st0 d)"
  proof (rule scores_kept_submitAnswer [OF assms], rule ballI)
    fix p assume "p \<in> set (member_rows d rid uid)"
    with assms have "cachedScore (players (fetchPlayers rid None st0 d)) uid = score p"
      by (rule fresh_cache)
    with that show "score p \<le> cachedScore (players st) uid + 1" by simp
  qed
  from assms show ?thesis
    by (intro conjI impI ballI scores_kept_startNewRound scores_kept_timerFires
        scores_kept_joinRoom scores_kept_joinRoom_prev scores_kept_leaveRoom
        scores_kept_createRoom scores_kept_createRoom_prev scores_kept_submitAnswer fresh)
       (auto dest: new_rows_joinRoom new_rows_joinRoom_prev new_rows_createRoom
        new_rows_createRoom_prev)
qed

theorem C6_scores_never_decrease_witness:
  "unique_members sample_db \<and>
   scores_kept sample_db (snd (submitAnswer ''r1'' ''u2'' None None sample_session sample_db)) \<and>
   game_players (snd (submitAnswer ''r1'' ''u2'' None None sample_session sample_db)) =
     [\<lparr>player_room_id = ''r1'', player_user_id = ''u2'', score = 6\<rparr>] \<and>
   scores_kept sample_db (snd (joinRoom ''r1'' (Some sample_user) None initial_lobby sample_db))"
proof -
  have u: "unique_members sample_db"
    by (simp add: unique_members_def sample_db_def)
  have c: "\<forall>p \<in> set (member_rows sample_db ''r1'' ''u2'').
             score p \<le> cachedScore (players sample_session) ''u2'' + 1"
    by (simp add: member_rows_def sample_db_def is_member_def cachedScore_def sample_session_def)
  have g: "game_players (snd (submitAnswer ''r1'' ''u2'' None None sample_session sample_db)) =
     [\<lparr>player_room_id = ''r1'', player_user_id = ''u2'', score = 6\<rparr>]"
    by (simp add: submitAnswer_def isCorrect_def sample_session_def sample_db_def paris_card_def
        trim_def toLowerCase_def lowerChar_def isWhiteSpace_def update_score_def
        insert_match_def newScore_def cachedScore_def is_member_def)
  show ?thesis
    using C6_scores_never_decrease [OF u, where rid = "''r1''" and uid = "''u2''"
        and st = sample_session and f_upd = None and f_ins = None
        and auth = "Some sample_user" and fault = None and lb = initial_lobby] u c g
    by simp
qed

lemma stale_session_eq:
  "stale_session = initial_session\<lparr>currentCard := Some paris_card, userAnswer := ''paris''\<rparr>"
  by (simp add: stale_session_def fetchCurrentCard_def fetchPlayers_def select_single_def
      room_rows_def card_rows_def single_def sample_db_def quiz_room_def paris_card_def)

text \<open>
  C6 as stated fails for a session whose cached leaderboard is empty because the leaderboard
  query failed: the stored score of \<open>u2\<close> is 5, the correct answer writes 0 + 1, and the row
  ends with score 1.
\<close>

theorem C6_stale_cache_counterexample:
  "reachable ''r1'' ''u2'' stale_session sample_db \<and>
   game_players sample_db = [\<lparr>player_room_id = ''r1'', player_user_id = ''u2'', score = 5\<rparr>] \<and>
   game_players (snd (submitAnswer ''r1'' ''u2'' None None stale_session sample_db)) =
     [\<lparr>player_room_id = ''r1'', player_user_id = ''u2'', score = 1\<rparr>] \<and>
   \<not> scores_kept sample_db (snd (submitAnswer ''r1'' ''u2'' None None stale_session sample_db))"
proof -
  have r: "reachable ''r1'' ''u2'' stale_session sample_db"
    unfolding stale_session_def
    by (intro reachable.typed reachable.card_fetched reachable.players_fetched reachable.enter)
  have a: "game_players (snd (submitAnswer ''r1'' ''u2'' None None stale_session sample_db)) =
     [\<lparr>player_room_id = ''r1'', player_user_id = ''u2'', score = 1\<rparr>]"
    by (simp add: stale_session_eq submitAnswer_def isCorrect_def initial_session_def
        paris_card_def trim_def toLowerCase_def lowerChar_def isWhiteSpace_def update_score_def
        insert_match_def newScore_def cachedScore_def sample_db_def is_member_def)
  have b: "game_players sample_db =
     [\<lparr>player_room_id = ''r1'', player_user_id = ''u2'', score = 5\<rparr>]"
    by (simp add: sample_db_def)
  from a b have "\<not> scores_kept sample_db
                     (snd (submitAnswer ''r1'' ''u2'' None None stale_session sample_db))"
    by (simp add: scores_kept_def member_key_def)
  with r a b show ?thesis by simp
qed

end
